theory Spec2Isabelle
  imports Complex_Main "HOL-Library.Word" "HOL-Library.Signed_Division"
begin

section \<open>Single-precision values\<close>

text \<open>
  The estimator computes on C++ \<open>float\<close>. A value is a finite number, an infinity or a
  NaN. Finite values are idealised as reals: rounding, and overflow of a finite result to
  an infinity, are not modelled. The special values follow IEEE 754, because the source
  divides by quantities that can be zero and then keeps computing with the result. The
  sign of a zero is not tracked: a zero divisor is taken as \<open>+0\<close>.
\<close>

datatype cfloat = Fin real | PInf | NInf | NaN

fun fneg :: "cfloat \<Rightarrow> cfloat" where
  "fneg (Fin x) = Fin (- x)"
| "fneg PInf = NInf"
| "fneg NInf = PInf"
| "fneg NaN = NaN"

fun fadd :: "cfloat \<Rightarrow> cfloat \<Rightarrow> cfloat" where
  "fadd (Fin x) (Fin y) = Fin (x + y)"
| "fadd NaN _ = NaN"
| "fadd _ NaN = NaN"
| "fadd PInf NInf = NaN"
| "fadd NInf PInf = NaN"
| "fadd PInf _ = PInf"
| "fadd _ PInf = PInf"
| "fadd NInf _ = NInf"
| "fadd _ NInf = NInf"

definition fsub :: "cfloat \<Rightarrow> cfloat \<Rightarrow> cfloat" where
  "fsub a b = fadd a (fneg b)"

fun fmul :: "cfloat \<Rightarrow> cfloat \<Rightarrow> cfloat" where
  "fmul (Fin x) (Fin y) = Fin (x * y)"
| "fmul NaN _ = NaN"
| "fmul _ NaN = NaN"
| "fmul PInf (Fin y) = (if y = 0 then NaN else if 0 < y then PInf else NInf)"
| "fmul NInf (Fin y) = (if y = 0 then NaN else if 0 < y then NInf else PInf)"
| "fmul (Fin x) PInf = (if x = 0 then NaN else if 0 < x then PInf else NInf)"
| "fmul (Fin x) NInf = (if x = 0 then NaN else if 0 < x then NInf else PInf)"
| "fmul PInf PInf = PInf"
| "fmul NInf NInf = PInf"
| "fmul PInf NInf = NInf"
| "fmul NInf PInf = NInf"

fun fdiv :: "cfloat \<Rightarrow> cfloat \<Rightarrow> cfloat" where
  "fdiv (Fin x) (Fin y) =
     (if y \<noteq> 0 then Fin (x / y)
      else if x = 0 then NaN
      else if 0 < x then PInf else NInf)"
| "fdiv NaN _ = NaN"
| "fdiv _ NaN = NaN"
| "fdiv (Fin x) PInf = Fin 0"
| "fdiv (Fin x) NInf = Fin 0"
| "fdiv PInf (Fin y) = (if 0 \<le> y then PInf else NInf)"
| "fdiv NInf (Fin y) = (if 0 \<le> y then NInf else PInf)"
| "fdiv PInf PInf = NaN"
| "fdiv PInf NInf = NaN"
| "fdiv NInf PInf = NaN"
| "fdiv NInf NInf = NaN"

text \<open>The comparison \<open>a < b\<close>: false as soon as one side is a NaN.\<close>

fun flt :: "cfloat \<Rightarrow> cfloat \<Rightarrow> bool" where
  "flt (Fin x) (Fin y) = (x < y)"
| "flt NaN _ = False"
| "flt _ NaN = False"
| "flt PInf _ = False"
| "flt _ NInf = False"
| "flt NInf _ = True"
| "flt _ PInf = True"

text \<open>The comparison \<open>a >= b\<close>.\<close>

definition fge :: "cfloat \<Rightarrow> cfloat \<Rightarrow> bool" where
  "fge a b = (a \<noteq> NaN \<and> b \<noteq> NaN \<and> \<not> flt a b)"

text \<open>\<open>std::min(a, b)\<close> is \<open>(b < a) ? b : a\<close> and \<open>std::max(a, b)\<close> is \<open>(a < b) ? b : a\<close>.\<close>

definition fmin :: "cfloat \<Rightarrow> cfloat \<Rightarrow> cfloat" where
  "fmin a b = (if flt b a then b else a)"

definition fmax :: "cfloat \<Rightarrow> cfloat \<Rightarrow> cfloat" where
  "fmax a b = (if flt a b then b else a)"

fun atanf :: "cfloat \<Rightarrow> cfloat" where
  "atanf (Fin x) = Fin (arctan x)"
| "atanf PInf = Fin (pi / 2)"
| "atanf NInf = Fin (- (pi / 2))"
| "atanf NaN = NaN"

text \<open>
  \<open>powf\<close> is only called with an exponent that is a non-negative whole number (the
  sample count, a loop index, the constant 2), so the exponent is a natural number here.
\<close>

fun powf :: "cfloat \<Rightarrow> nat \<Rightarrow> cfloat" where
  "powf (Fin x) n = Fin (x ^ n)"
| "powf PInf n = (if n = 0 then Fin 1 else PInf)"
| "powf NInf n = (if n = 0 then Fin 1 else if even n then PInf else NInf)"
| "powf NaN n = (if n = 0 then Fin 1 else NaN)"

section \<open>The adaptation object\<close>

text \<open>
  \<open>size_t\<close> and \<open>long\<close> are 64 bits wide (LP64). A time point of the steady clock is
  its count of nanoseconds since the clock's epoch, an integer; the clock never goes back.
\<close>

type_synonym size_t = "64 word"
type_synonym time_point = int

definition kPI_2 :: cfloat where
  "kPI_2 = Fin (pi / 2)"

definition kWeight :: cfloat where
  "kWeight = Fin 0.75"

definition kPivotSamples :: nat where
  "kPivotSamples = 5"

text \<open>
  Modelled from the spec: the class declaration, \<open>videocore/stream/TCPThroughputAdaptation.h\<close>,
  is not among the sources. The fields are the members the source file reads and writes,
  typed by the way it uses them and by the data model of the specification: the two
  windows are sequences of floats with the most recent sample in front, the pending samples
  are sequences of \<open>size_t\<close> in arrival order, \<open>m_previousTurndown\<close> is a time point. The
  callback is modelled by whether one is registered; the thread, the mutexes, the condition
  variable and \<open>m_exiting\<close> are left out. \<open>prev\<close> is the local variable of \<open>sampleThread\<close>
  that lives across its iterations.
\<close>

record adaptation =
  m_callback :: bool
  m_hasFirstTurndown :: bool
  m_previousTurndown :: time_point
  m_bwSampleCount :: nat
  m_previousVector :: cfloat
  m_bwWeights :: "cfloat list"
  m_bwSamples :: "cfloat list"
  m_turnSamples :: "cfloat list"
  m_sentSamples :: "size_t list"
  m_bufferSizeSamples :: "size_t list"
  prev :: time_point

subsection \<open>Constructor\<close>

definition bwWeights :: "nat \<Rightarrow> cfloat list" where
  "bwWeights n =
     (let v = fdiv (fsub (Fin 1) (powf kWeight n)) (fsub (Fin 1) kWeight)
      in map (\<lambda>i. fdiv (powf kWeight i) v) [0..<n])"

text \<open>
  The constructor starts the thread, which reads the clock once before its loop: \<open>t0\<close>.
  A default-constructed time point is the clock's epoch.
\<close>

definition TCPThroughputAdaptation :: "time_point \<Rightarrow> adaptation" where
  "TCPThroughputAdaptation t0 =
     \<lparr> m_callback = False,
       m_hasFirstTurndown = False,
       m_previousTurndown = 0,
       m_bwSampleCount = 30,
       m_previousVector = Fin 0,
       m_bwWeights = bwWeights 30,
       m_bwSamples = [],
       m_turnSamples = [],
       m_sentSamples = [],
       m_bufferSizeSamples = [],
       prev = t0 \<rparr>"

subsection \<open>Producers\<close>

definition setThroughputCallback :: "bool \<Rightarrow> adaptation \<Rightarrow> adaptation" where
  "setThroughputCallback callback s = s\<lparr>m_callback := callback\<rparr>"

definition addBufferSizeSample :: "size_t \<Rightarrow> adaptation \<Rightarrow> adaptation" where
  "addBufferSizeSample bufferSize s =
     s\<lparr>m_bufferSizeSamples := m_bufferSizeSamples s @ [bufferSize]\<rparr>"

definition addSentBytesSample :: "size_t \<Rightarrow> adaptation \<Rightarrow> adaptation" where
  "addSentBytesSample bytesSent s =
     s\<lparr>m_sentSamples := m_sentSamples s @ [bytesSent]\<rparr>"

subsection \<open>One iteration of the sampling loop\<close>

text \<open>The sum of the sent samples, in \<open>size_t\<close>: it wraps modulo \<open>2 ^ 64\<close>.\<close>

definition totalSent :: "size_t list \<Rightarrow> size_t" where
  "totalSent samples = foldl (+) 0 samples"

text \<open>\<open>duration_cast\<close> to a coarser unit truncates towards zero.\<close>

definition timeDelta :: "int \<Rightarrow> cfloat" where
  "timeDelta diff = fdiv (Fin (real_of_int (diff sdiv 1000))) (Fin 1000000)"

definition detectedBytesPerSec :: "size_t \<Rightarrow> cfloat \<Rightarrow> cfloat" where
  "detectedBytesPerSec sent td = fdiv (Fin (real (unat sent))) td"

text \<open>Lines 68 to 83: the throughput detected over the time since the previous iteration.\<close>

definition detected_at :: "adaptation \<Rightarrow> time_point \<Rightarrow> cfloat" where
  "detected_at s now =
     detectedBytesPerSec (totalSent (m_sentSamples s)) (timeDelta (now - prev s))"

text \<open>\<open>push_front\<close>, then \<open>pop_back\<close> when the size exceeds the capacity.\<close>

definition push_front_capped :: "'a \<Rightarrow> 'a list \<Rightarrow> nat \<Rightarrow> 'a list" where
  "push_front_capped x xs cap =
     (if length (x # xs) > cap then butlast (x # xs) else x # xs)"

text \<open>Lines 71 and 88 to 91: the clock reading is kept and the bandwidth window takes the sample.\<close>

definition estimate :: "adaptation \<Rightarrow> time_point \<Rightarrow> adaptation" where
  "estimate s now =
     s\<lparr>prev := now,
       m_bwSamples := push_front_capped (detected_at s now) (m_bwSamples s) (m_bwSampleCount s)\<rparr>"

text \<open>
  Lines 92 to 94. The source indexes the weights with the indices of the window; the
  window is never longer than the list of weights.
\<close>

definition weighted_avg :: "cfloat list \<Rightarrow> cfloat list \<Rightarrow> cfloat" where
  "weighted_avg bw ws =
     foldl (\<lambda>avg i. fadd avg (fmul (bw ! i) (ws ! i))) (Fin 0) [0..<length bw]"

definition previousTurndownDiff :: "adaptation \<Rightarrow> time_point \<Rightarrow> int" where
  "previousTurndownDiff s now = (now - m_previousTurndown s) sdiv 1000000000"

text \<open>
  Lines 102 to 110, for a non-empty buffer sequence: the value of \<open>vec\<close> after the
  classification, and the object with the fields the branch assigns.
\<close>

definition classify :: "adaptation \<Rightarrow> time_point \<Rightarrow> cfloat \<times> adaptation" where
  "classify s now =
     (if last (m_bufferSizeSamples s) = 0
         \<and> (\<not> m_hasFirstTurndown s \<or> previousTurndownDiff s now > 10)
      then (Fin 1, s)
      else if last (m_bufferSizeSamples s) > hd (m_bufferSizeSamples s)
      then (Fin (- 1), s\<lparr>m_previousTurndown := now, m_hasFirstTurndown := True\<rparr>)
      else (Fin 0, s))"

text \<open>
  \<open>long(back) - long(front)\<close>: each operand is read as two's complement; the difference
  is taken in the integers (it is the machine result whenever it fits 64 bits).
\<close>

definition bufferDelta :: "size_t list \<Rightarrow> int" where
  "bufferDelta bufs = sint (last bufs) - sint (hd bufs)"

text \<open>Lines 112 to 124: the two pushes into the turn samples.\<close>

definition pivots :: "adaptation \<Rightarrow> cfloat \<Rightarrow> cfloat \<Rightarrow> cfloat list" where
  "pivots s vec detected =
     (let ts = (if flt (m_previousVector s) (Fin 0) \<and> fge vec (Fin 0)
                then push_front_capped (hd (m_bwSamples s)) (m_turnSamples s) kPivotSamples
                else m_turnSamples s)
      in if bufferDelta (m_bufferSizeSamples s) < 0 \<and> last (m_bufferSizeSamples s) > 0
         then push_front_capped detected ts kPivotSamples
         else ts)"

text \<open>Lines 129 to 137.\<close>

definition turnAvg_of :: "cfloat list \<Rightarrow> cfloat" where
  "turnAvg_of ts = fdiv (foldl fadd (Fin 0) ts) (Fin (real (length ts)))"

definition synth_a :: "cfloat \<Rightarrow> cfloat \<Rightarrow> cfloat \<Rightarrow> cfloat" where
  "synth_a detected avg turnAvg = fdiv (fsub detected avg) turnAvg"

definition magnitude :: "cfloat \<Rightarrow> cfloat" where
  "magnitude a =
     (let slope = fmul (Fin 3) (powf a 2)
      in fmin (Fin 1) (fmax (fdiv (atanf slope) kPI_2) (Fin 0.1)))"

text \<open>
  Lines 97 to 146, the body of \<open>if(!m_bufferSizeSamples.empty())\<close>: the object, and the
  locals \<open>vec\<close> and \<open>turnAvg\<close> at its end.
\<close>

definition detect :: "adaptation \<Rightarrow> time_point \<Rightarrow> cfloat \<Rightarrow> cfloat \<Rightarrow> adaptation \<times> cfloat \<times> cfloat" where
  "detect s now detected avg =
     (let (dir, s1) = classify s now;
          ts = pivots s1 dir detected;
          turnAvg = (if length ts > 0 then turnAvg_of ts else Fin 0);
          vec = (if length ts > 0
                 then fmul dir (magnitude (synth_a detected avg turnAvg))
                 else dir)
      in (s1\<lparr>m_turnSamples := ts, m_previousVector := vec\<rparr>, vec, turnAvg))"

text \<open>
  One iteration of the loop of \<open>sampleThread\<close> with the clock reading \<open>now\<close>: the object
  after it, and the locals \<open>vec\<close> and \<open>turnAvg\<close> at line 152.
\<close>

definition sampleThread_iter :: "adaptation \<Rightarrow> time_point \<Rightarrow> adaptation \<times> cfloat \<times> cfloat" where
  "sampleThread_iter s now =
     (let detected = detected_at s now;
          s1 = estimate s now;
          avg = weighted_avg (m_bwSamples s1) (m_bwWeights s1);
          (s2, vec, turnAvg) = (if m_bufferSizeSamples s1 \<noteq> []
                                then detect s1 now detected avg
                                else (s1, Fin 0, Fin 0))
      in (s2\<lparr>m_sentSamples := [], m_bufferSizeSamples := []\<rparr>, vec, turnAvg))"

text \<open>Lines 152 to 155: the arguments the callback receives, if one is registered.\<close>

definition callback_args :: "adaptation \<Rightarrow> adaptation \<times> cfloat \<times> cfloat \<Rightarrow> (cfloat \<times> cfloat) option" where
  "callback_args s r = (if m_callback s then Some (snd r) else None)"

subsection \<open>Histories\<close>

text \<open>
  The producers and the loop exclude each other by the two mutexes, so a history of the
  object is a sequence of producer calls and loop iterations.
\<close>

datatype event =
    SetThroughputCallback bool
  | AddBufferSizeSample size_t
  | AddSentBytesSample size_t
  | Tick time_point

fun step :: "adaptation \<Rightarrow> event \<Rightarrow> adaptation" where
  "step s (SetThroughputCallback c) = setThroughputCallback c s"
| "step s (AddBufferSizeSample n) = addBufferSizeSample n s"
| "step s (AddSentBytesSample n) = addSentBytesSample n s"
| "step s (Tick now) = fst (sampleThread_iter s now)"

definition run :: "adaptation \<Rightarrow> event list \<Rightarrow> adaptation" where
  "run s es = foldl step s es"

subsection \<open>Observations of an iteration\<close>

text \<open>
  The direction of an iteration that finds buffer samples: the value of \<open>vec\<close> after the
  classification of lines 102 to 110, before the magnitude is applied.
\<close>

definition direction :: "adaptation \<Rightarrow> time_point \<Rightarrow> cfloat" where
  "direction s now = fst (classify s now)"

text \<open>The weighted average of lines 92 to 94 in the iteration from \<open>s\<close> at \<open>now\<close>.\<close>

definition avg_at :: "adaptation \<Rightarrow> time_point \<Rightarrow> cfloat" where
  "avg_at s now =
     weighted_avg (m_bwSamples (estimate s now)) (m_bwWeights (estimate s now))"

text \<open>The local \<open>a\<close> of line 134, when the iteration from \<open>s\<close> at \<open>now\<close> reaches it.\<close>

definition a_at :: "adaptation \<Rightarrow> time_point \<Rightarrow> cfloat" where
  "a_at s now =
     synth_a (detected_at s now) (avg_at s now) (snd (snd (sampleThread_iter s now)))"

text \<open>
  The clamp of the specification, \<open>clamp(x, lo, hi)\<close>, on real numbers; the source
  writes \<open>std::min(1.f, std::max(x, 0.1f))\<close>.
\<close>

definition spec_clamp :: "real \<Rightarrow> real \<Rightarrow> real \<Rightarrow> real" where
  "spec_clamp x lo hi = (if x < lo then lo else if hi < x then hi else x)"

text \<open>The windows are within their capacities.\<close>

definition window_inv :: "adaptation \<Rightarrow> bool" where
  "window_inv s = (m_bwSampleCount s = 30
     \<and> length (m_bwSamples s) \<le> 30 \<and> length (m_turnSamples s) \<le> 5)"

text \<open>The drain branch of line 102 is taken.\<close>

definition drain_accepted :: "adaptation \<Rightarrow> time_point \<Rightarrow> bool" where
  "drain_accepted s now =
     (m_bufferSizeSamples s \<noteq> [] \<and> last (m_bufferSizeSamples s) = 0
      \<and> (\<not> m_hasFirstTurndown s \<or> previousTurndownDiff s now > 10))"

text \<open>The iteration sees the buffer grow: its last sample is above its first.\<close>

definition observed_growth :: "adaptation \<Rightarrow> bool" where
  "observed_growth s =
     (m_bufferSizeSamples s \<noteq> [] \<and> last (m_bufferSizeSamples s) > hd (m_bufferSizeSamples s))"

text \<open>
  Line 134 is reached and its divisor \<open>turnAvg\<close> is zero: the branch of line 126 is taken
  exactly when the turn samples are not empty after the pushes, and \<open>turnAvg\<close> is then
  the local the callback receives.
\<close>

definition divides_by_zero :: "adaptation \<Rightarrow> time_point \<Rightarrow> bool" where
  "divides_by_zero s now =
     (m_bufferSizeSamples s \<noteq> []
      \<and> m_turnSamples (fst (sampleThread_iter s now)) \<noteq> []
      \<and> snd (snd (sampleThread_iter s now)) = Fin 0)"

fun is_tick :: "event \<Rightarrow> bool" where
  "is_tick (Tick now) = True"
| "is_tick _ = False"

text \<open>No iteration of the history, started in \<open>s\<close>, sees the buffer grow.\<close>

fun no_growth_observed :: "adaptation \<Rightarrow> event list \<Rightarrow> bool" where
  "no_growth_observed s [] = True"
| "no_growth_observed s (e # es) =
     ((is_tick e \<longrightarrow> \<not> observed_growth s) \<and> no_growth_observed (step s e) es)"

subsection \<open>Example histories\<close>

text \<open>
  Histories of a fresh object whose thread starts at clock reading 0. The first iteration
  runs at once, or one millisecond later; the later ones 5 seconds apart.
\<close>

abbreviation shrink_idle :: "event list" where
  "shrink_idle \<equiv>
     [Tick 1000000, AddBufferSizeSample 500, AddBufferSizeSample 200]"

abbreviation shrink_sending :: "event list" where
  "shrink_sending \<equiv>
     [Tick 1000000, AddSentBytesSample 1000, AddBufferSizeSample 500, AddBufferSizeSample 200]"

abbreviation fill_once :: "event list" where
  "fill_once \<equiv>
     [Tick 0, AddBufferSizeSample 100, AddBufferSizeSample 500]"

abbreviation fill_with_callback :: "event list" where
  "fill_with_callback \<equiv>
     [Tick 0, SetThroughputCallback True, AddBufferSizeSample 100, AddBufferSizeSample 500]"

abbreviation fill_with_callback_then_tick :: "event list" where
  "fill_with_callback_then_tick \<equiv>
     [Tick 0, SetThroughputCallback True, AddBufferSizeSample 100, AddBufferSizeSample 500, Tick 5000000000]"

abbreviation fill_sending :: "event list" where
  "fill_sending \<equiv>
     [Tick 0, AddSentBytesSample 1000, AddBufferSizeSample 100, AddBufferSizeSample 500]"

abbreviation fill_then_drain :: "event list" where
  "fill_then_drain \<equiv>
     [Tick 0, AddSentBytesSample 1000, AddBufferSizeSample 100, AddBufferSizeSample 500,
      Tick 5000000000, AddSentBytesSample 1000, AddBufferSizeSample 200, AddBufferSizeSample 0]"

abbreviation drain_once :: "event list" where
  "drain_once \<equiv>
     [Tick 0, AddBufferSizeSample 200, AddBufferSizeSample 0]"

abbreviation drain_twice :: "event list" where
  "drain_twice \<equiv>
     [Tick 0, AddBufferSizeSample 200, AddBufferSizeSample 0,
      Tick 5000000000, AddBufferSizeSample 200, AddBufferSizeSample 0]"

section \<open>Properties\<close>

subsection \<open>Single-precision values and windows\<close>

lemma fmax_Fin: "fmax (Fin x) (Fin y) = Fin (max x y)"
  by (simp add: fmax_def max_def)

lemma fmin_Fin: "fmin (Fin x) (Fin y) = Fin (min x y)"
  by (simp add: fmin_def min_def)

lemma magnitude_Fin:
  "magnitude (Fin x) = Fin (min 1 (max (arctan (3 * x\<^sup>2) / (pi / 2)) (1 / 10)))"
  by (simp add: magnitude_def kPI_2_def Let_def fmin_Fin fmax_Fin)

lemma magnitude_special:
  "magnitude PInf = Fin 1" "magnitude NInf = Fin 1" "magnitude NaN = Fin 1"
  by (simp_all add: magnitude_def kPI_2_def fmin_def fmax_def)

lemma magnitude_range: "\<exists>m. magnitude a = Fin m \<and> 1 / 10 \<le> m \<and> m \<le> 1"
proof (cases a)
  case (Fin x)
  have "magnitude a = Fin (min 1 (max (arctan (3 * x\<^sup>2) / (pi / 2)) (1 / 10)))"
    using Fin by (simp only: magnitude_Fin)
  moreover have "1 / 10 \<le> min 1 (max (arctan (3 * x\<^sup>2) / (pi / 2)) (1 / 10 :: real))"
    by (simp add: min_def max_def)
  moreover have "min 1 (max (arctan (3 * x\<^sup>2) / (pi / 2)) (1 / 10 :: real)) \<le> 1"
    by (rule min.cobounded1)
  ultimately show ?thesis by blast
qed (simp_all add: magnitude_special)

lemma fmul_zero_magnitude: "fmul (Fin 0) (magnitude a) = Fin 0"
proof -
  obtain m where "magnitude a = Fin m"
    using magnitude_range by blast
  then show ?thesis by simp
qed

lemma length_push_front_capped:
  "length xs \<le> cap \<Longrightarrow> length (push_front_capped x xs cap) \<le> cap"
  by (simp add: push_front_capped_def)

lemma hd_push_front_capped:
  "0 < cap \<Longrightarrow> hd (push_front_capped x xs cap) = x"
  by (cases xs) (simp_all add: push_front_capped_def)

lemma sdiv_seconds_gt_10: "(10 < (k::int) sdiv 1000000000) = (11000000000 \<le> k)"
proof (cases "0 < k")
  case True
  then have "k sdiv 1000000000 = k div 1000000000"
    by (simp add: signed_divide_int_def)
  then show ?thesis by linarith
next
  case False
  then have "k sdiv 1000000000 \<le> 0"
    by (simp add: signed_divide_int_def sgn_if div_int_pos_iff)
  with False show ?thesis by linarith
qed

lemma previousTurndownDiff_mono:
  "now1 \<le> now2 \<Longrightarrow> previousTurndownDiff s now1 > 10 \<Longrightarrow> previousTurndownDiff s now2 > 10"
  by (simp add: previousTurndownDiff_def sdiv_seconds_gt_10)

subsection \<open>What an iteration reads and writes\<close>

lemma direction_cases: "direction s now \<in> {Fin 1, Fin (- 1), Fin 0}"
  by (simp add: direction_def classify_def)

lemma direction_1_iff:
  "m_bufferSizeSamples s \<noteq> [] \<Longrightarrow> (direction s now = Fin 1) = drain_accepted s now"
  by (simp add: direction_def classify_def drain_accepted_def)

lemma classify_accepted:
  "drain_accepted s now \<Longrightarrow> classify s now = (Fin 1, s)"
  by (simp add: drain_accepted_def classify_def)

lemma classify_changes_debounce:
  "m_hasFirstTurndown (snd (classify s now)) \<noteq> m_hasFirstTurndown s
     \<or> m_previousTurndown (snd (classify s now)) \<noteq> m_previousTurndown s \<Longrightarrow>
   last (m_bufferSizeSamples s) > hd (m_bufferSizeSamples s)
   \<and> \<not> (last (m_bufferSizeSamples s) = 0
         \<and> (\<not> m_hasFirstTurndown s \<or> previousTurndownDiff s now > 10))"
  by (auto simp: classify_def split: if_splits)

lemma classify_estimate:
  "classify (estimate s now) now =
     (direction s now,
      estimate (snd (classify s now)) now)"
  by (simp add: classify_def estimate_def direction_def previousTurndownDiff_def detected_at_def)

lemma snd_classify_fields:
  "m_callback (snd (classify s now)) = m_callback s"
  "m_bwSampleCount (snd (classify s now)) = m_bwSampleCount s"
  "m_previousVector (snd (classify s now)) = m_previousVector s"
  "m_bwWeights (snd (classify s now)) = m_bwWeights s"
  "m_bwSamples (snd (classify s now)) = m_bwSamples s"
  "m_turnSamples (snd (classify s now)) = m_turnSamples s"
  "m_sentSamples (snd (classify s now)) = m_sentSamples s"
  "m_bufferSizeSamples (snd (classify s now)) = m_bufferSizeSamples s"
  "prev (snd (classify s now)) = prev s"
  by (simp_all add: classify_def)

lemma detected_at_classify:
  "detected_at (snd (classify s now)) now' = detected_at s now'"
  by (simp add: detected_at_def snd_classify_fields)

lemma iter_empty:
  "m_bufferSizeSamples s = [] \<Longrightarrow>
   sampleThread_iter s now =
     ((estimate s now)\<lparr>m_sentSamples := [], m_bufferSizeSamples := []\<rparr>, Fin 0, Fin 0)"
  by (simp add: sampleThread_iter_def Let_def estimate_def)

lemma iter_nonempty:
  "m_bufferSizeSamples s \<noteq> [] \<Longrightarrow>
   sampleThread_iter s now =
     (let s1 = estimate (snd (classify s now)) now;
          ts = pivots s1 (direction s now) (detected_at s now);
          turnAvg = (if ts \<noteq> [] then turnAvg_of ts else Fin 0);
          vec = (if ts \<noteq> []
                 then fmul (direction s now)
                        (magnitude (synth_a (detected_at s now)
                           (weighted_avg (m_bwSamples (estimate s now)) (m_bwWeights s)) turnAvg))
                 else direction s now)
      in (s1\<lparr>m_turnSamples := ts, m_previousVector := vec,
              m_sentSamples := [], m_bufferSizeSamples := []\<rparr>, vec, turnAvg))"
  by (simp add: sampleThread_iter_def Let_def detect_def classify_estimate)
    (simp add: estimate_def)

lemma fst_iter:
  "fst (sampleThread_iter s now) =
     (if m_bufferSizeSamples s = []
      then (estimate s now)\<lparr>m_sentSamples := [], m_bufferSizeSamples := []\<rparr>
      else (estimate (snd (classify s now)) now)
             \<lparr>m_turnSamples := pivots (estimate (snd (classify s now)) now)
                                (direction s now) (detected_at s now),
              m_previousVector := fst (snd (sampleThread_iter s now)),
              m_sentSamples := [], m_bufferSizeSamples := []\<rparr>)"
  by (simp add: iter_empty iter_nonempty Let_def)

lemma iter_vec:
  "m_bufferSizeSamples s \<noteq> [] \<Longrightarrow>
   fst (snd (sampleThread_iter s now)) =
     (if m_turnSamples (fst (sampleThread_iter s now)) \<noteq> []
      then fmul (direction s now) (magnitude (a_at s now))
      else direction s now)"
  by (simp add: a_at_def avg_at_def iter_nonempty Let_def) (simp add: estimate_def)

lemma iter_debounce:
  "m_hasFirstTurndown (fst (sampleThread_iter s now)) =
     (if m_bufferSizeSamples s \<noteq> [] then m_hasFirstTurndown (snd (classify s now))
      else m_hasFirstTurndown s)"
  "m_previousTurndown (fst (sampleThread_iter s now)) =
     (if m_bufferSizeSamples s \<noteq> [] then m_previousTurndown (snd (classify s now))
      else m_previousTurndown s)"
  by (simp_all add: iter_nonempty iter_empty Let_def estimate_def)

lemma iter_empty_keeps:
  "m_bufferSizeSamples s = [] \<Longrightarrow>
   m_turnSamples (fst (sampleThread_iter s now)) = m_turnSamples s"
  "m_bufferSizeSamples s = [] \<Longrightarrow>
   m_previousVector (fst (sampleThread_iter s now)) = m_previousVector s"
  by (simp_all add: iter_empty estimate_def)

lemma iter_fields:
  "m_callback (fst (sampleThread_iter s now)) = m_callback s"
  "m_bwSampleCount (fst (sampleThread_iter s now)) = m_bwSampleCount s"
  "m_bwWeights (fst (sampleThread_iter s now)) = m_bwWeights s"
  "m_bwSamples (fst (sampleThread_iter s now)) =
     push_front_capped (detected_at s now) (m_bwSamples s) (m_bwSampleCount s)"
  "m_sentSamples (fst (sampleThread_iter s now)) = []"
  "m_bufferSizeSamples (fst (sampleThread_iter s now)) = []"
  "prev (fst (sampleThread_iter s now)) = now"
  by (simp_all add: fst_iter estimate_def detected_at_def snd_classify_fields)

subsection \<open>Histories\<close>

lemma run_simps:
  "run s [] = s"
  "run s (e # es) = run (step s e) es"
  by (simp_all add: run_def)

lemma producer_fields:
  "m_bufferSizeSamples (addBufferSizeSample n s) = m_bufferSizeSamples s @ [n]"
  "m_hasFirstTurndown (addBufferSizeSample n s) = m_hasFirstTurndown s"
  "m_previousTurndown (addBufferSizeSample n s) = m_previousTurndown s"
  "m_bufferSizeSamples (addSentBytesSample n s) = m_bufferSizeSamples s"
  "m_hasFirstTurndown (addSentBytesSample n s) = m_hasFirstTurndown s"
  "m_previousTurndown (addSentBytesSample n s) = m_previousTurndown s"
  "m_bufferSizeSamples (setThroughputCallback c s) = m_bufferSizeSamples s"
  "m_hasFirstTurndown (setThroughputCallback c s) = m_hasFirstTurndown s"
  "m_previousTurndown (setThroughputCallback c s) = m_previousTurndown s"
  by (simp_all add: addBufferSizeSample_def addSentBytesSample_def setThroughputCallback_def)

lemma producer_fields_more:
  "m_callback (addBufferSizeSample n s) = m_callback s"
  "m_bwSampleCount (addBufferSizeSample n s) = m_bwSampleCount s"
  "m_previousVector (addBufferSizeSample n s) = m_previousVector s"
  "m_bwWeights (addBufferSizeSample n s) = m_bwWeights s"
  "m_bwSamples (addBufferSizeSample n s) = m_bwSamples s"
  "m_turnSamples (addBufferSizeSample n s) = m_turnSamples s"
  "m_sentSamples (addBufferSizeSample n s) = m_sentSamples s"
  "prev (addBufferSizeSample n s) = prev s"
  "m_callback (addSentBytesSample n s) = m_callback s"
  "m_bwSampleCount (addSentBytesSample n s) = m_bwSampleCount s"
  "m_previousVector (addSentBytesSample n s) = m_previousVector s"
  "m_bwWeights (addSentBytesSample n s) = m_bwWeights s"
  "m_bwSamples (addSentBytesSample n s) = m_bwSamples s"
  "m_turnSamples (addSentBytesSample n s) = m_turnSamples s"
  "m_sentSamples (addSentBytesSample n s) = m_sentSamples s @ [n]"
  "prev (addSentBytesSample n s) = prev s"
  "m_callback (setThroughputCallback c s) = c"
  "m_bwSampleCount (setThroughputCallback c s) = m_bwSampleCount s"
  "m_previousVector (setThroughputCallback c s) = m_previousVector s"
  "m_bwWeights (setThroughputCallback c s) = m_bwWeights s"
  "m_bwSamples (setThroughputCallback c s) = m_bwSamples s"
  "m_turnSamples (setThroughputCallback c s) = m_turnSamples s"
  "m_sentSamples (setThroughputCallback c s) = m_sentSamples s"
  "prev (setThroughputCallback c s) = prev s"
  by (simp_all add: addBufferSizeSample_def addSentBytesSample_def setThroughputCallback_def)

lemma fresh_fields:
  "m_bufferSizeSamples (TCPThroughputAdaptation t0) = []"
  "m_hasFirstTurndown (TCPThroughputAdaptation t0) = False"
  "m_previousTurndown (TCPThroughputAdaptation t0) = 0"
  by (simp_all add: TCPThroughputAdaptation_def)

lemma fresh_fields_more:
  "m_callback (TCPThroughputAdaptation t0) = False"
  "m_bwSampleCount (TCPThroughputAdaptation t0) = 30"
  "m_previousVector (TCPThroughputAdaptation t0) = Fin 0"
  "m_bwWeights (TCPThroughputAdaptation t0) = bwWeights 30"
  "m_bwSamples (TCPThroughputAdaptation t0) = []"
  "m_turnSamples (TCPThroughputAdaptation t0) = []"
  "m_sentSamples (TCPThroughputAdaptation t0) = []"
  "prev (TCPThroughputAdaptation t0) = t0"
  by (simp_all add: TCPThroughputAdaptation_def)

lemma step_producer_debounce:
  "\<not> is_tick e \<Longrightarrow> m_hasFirstTurndown (step s e) = m_hasFirstTurndown s"
  "\<not> is_tick e \<Longrightarrow> m_previousTurndown (step s e) = m_previousTurndown s"
  by (cases e; simp add: producer_fields)+

lemma run_producers_debounce:
  "list_all (\<lambda>e. \<not> is_tick e) es \<Longrightarrow>
   m_hasFirstTurndown (run s es) = m_hasFirstTurndown s
   \<and> m_previousTurndown (run s es) = m_previousTurndown s"
  by (induction es arbitrary: s) (simp_all add: run_simps step_producer_debounce)

lemma step_producer_window:
  "\<not> is_tick e \<Longrightarrow> m_previousVector (step s e) = m_previousVector s"
  "\<not> is_tick e \<Longrightarrow> m_turnSamples (step s e) = m_turnSamples s"
  "\<not> is_tick e \<Longrightarrow> m_bwSampleCount (step s e) = m_bwSampleCount s"
  by (cases e; simp add: producer_fields_more)+

lemma run_producers_window:
  "list_all (\<lambda>e. \<not> is_tick e) es \<Longrightarrow>
   m_previousVector (run s es) = m_previousVector s
   \<and> m_turnSamples (run s es) = m_turnSamples s
   \<and> m_bwSampleCount (run s es) = m_bwSampleCount s"
  by (induction es arbitrary: s) (simp_all add: run_simps step_producer_window)

lemma step_keeps_no_turndown:
  assumes "\<not> m_hasFirstTurndown s" "is_tick e \<longrightarrow> \<not> observed_growth s"
  shows "\<not> m_hasFirstTurndown (step s e)"
proof (cases e)
  case (Tick now)
  then show ?thesis
    using assms by (auto simp: iter_debounce classify_def observed_growth_def)
qed (use assms in \<open>simp_all add: producer_fields\<close>)

lemma no_growth_keeps_no_turndown:
  "no_growth_observed s es \<Longrightarrow> \<not> m_hasFirstTurndown s \<Longrightarrow> \<not> m_hasFirstTurndown (run s es)"
proof (induction es arbitrary: s)
  case Nil
  then show ?case by (simp add: run_simps)
next
  case (Cons e es)
  from Cons.prems have "\<not> m_hasFirstTurndown (step s e)"
    by (simp add: step_keeps_no_turndown)
  with Cons show ?case by (simp add: run_simps)
qed

lemmas history_simps =
  run_simps producer_fields producer_fields_more fresh_fields fresh_fields_more
  iter_fields iter_debounce iter_empty_keeps

subsection \<open>The weights\<close>

lemma weight_norm_pos: "0 < n \<Longrightarrow> 0 < (1 - (3/4 :: real) ^ n) / (1 - 3/4)"
proof -
  assume "0 < n"
  then have "(3/4 :: real) ^ n < 1"
    by (simp add: power_less_one_iff)
  then show ?thesis by simp
qed

lemma bwWeights_eq:
  assumes "0 < n"
  shows "bwWeights n = map (\<lambda>i. Fin ((3/4) ^ i / ((1 - (3/4) ^ n) / (1 - 3/4)))) [0..<n]"
proof -
  have "(1 - (3/4 :: real) ^ n) / (1 - 3/4) \<noteq> 0"
    using weight_norm_pos [OF assms] by simp
  then show ?thesis
    by (simp add: bwWeights_def kWeight_def fsub_def Let_def)
qed

lemma bwWeights_nth:
  "i < 30 \<Longrightarrow> bwWeights 30 ! i = Fin ((3/4) ^ i / ((1 - (3/4) ^ 30) / (1 - 3/4)))"
  using bwWeights_eq [of 30] by (simp del: upt_rec_numeral)

lemma foldl_fadd_Fin:
  "foldl fadd (Fin a) (map (\<lambda>i. Fin (f i)) xs) = Fin (a + sum_list (map f xs))"
  by (induction xs arbitrary: a) (simp_all add: add.assoc)

lemma sum_weights:
  assumes "0 < n"
  shows "sum_list (map (\<lambda>i. (3/4 :: real) ^ i / ((1 - (3/4) ^ n) / (1 - 3/4))) [0..<n]) = 1"
proof -
  let ?v = "(1 - (3/4 :: real) ^ n) / (1 - 3/4)"
  have v: "?v \<noteq> 0"
    using weight_norm_pos [OF assms] by simp
  have "sum_list (map (\<lambda>i. (3/4 :: real) ^ i / ?v) [0..<n]) = (\<Sum>i<n. (3/4) ^ i / ?v)"
    by (simp add: interv_sum_list_conv_sum_set_nat atLeast0LessThan)
  also have "\<dots> = (\<Sum>i<n. (3/4) ^ i) / ?v"
    by (simp only: sum_divide_distrib)
  also have "(\<Sum>i<n. (3/4 :: real) ^ i) = ((3/4) ^ n - 1) / (3/4 - 1)"
    by (rule geometric_sum) simp
  also have "((3/4 :: real) ^ n - 1) / (3/4 - 1) = ?v"
    by (simp add: field_simps)
  finally show ?thesis
    using v by simp
qed

subsection \<open>The turn samples and their average\<close>

lemma turnAvg_iter:
  "m_bufferSizeSamples s \<noteq> [] \<Longrightarrow>
   snd (snd (sampleThread_iter s now)) =
     (if m_turnSamples (fst (sampleThread_iter s now)) \<noteq> []
      then turnAvg_of (m_turnSamples (fst (sampleThread_iter s now))) else Fin 0)"
  by (simp add: iter_nonempty Let_def)

lemma turnSamples_iter:
  "m_bufferSizeSamples s \<noteq> [] \<Longrightarrow>
   m_turnSamples (fst (sampleThread_iter s now)) =
     pivots (estimate (snd (classify s now)) now) (direction s now) (detected_at s now)"
  by (simp add: fst_iter)

lemma length_pivots:
  "length (m_turnSamples s) \<le> 5 \<Longrightarrow> length (pivots s vec detected) \<le> 5"
  by (simp add: pivots_def Let_def kPivotSamples_def length_push_front_capped)

lemma length_turnSamples_iter:
  assumes "length (m_turnSamples s) \<le> 5"
  shows "length (m_turnSamples (fst (sampleThread_iter s now))) \<le> 5"
proof (cases "m_bufferSizeSamples s = []")
  case True
  then show ?thesis
    using assms by (simp add: iter_empty estimate_def)
next
  case False
  have "length (m_turnSamples (estimate (snd (classify s now)) now)) \<le> 5"
    using assms by (simp add: estimate_def snd_classify_fields)
  then show ?thesis
    using False by (simp add: fst_iter length_pivots)
qed

lemma min_max_clamp: "lo \<le> hi \<Longrightarrow> min hi (max x lo) = spec_clamp x lo hi"
  by (auto simp: spec_clamp_def min_def max_def)

lemma magnitude_clamp:
  "magnitude (Fin x) = Fin (spec_clamp (arctan (3 * x\<^sup>2) / (pi / 2)) (1 / 10) 1)"
  by (simp only: magnitude_Fin min_max_clamp [of "1 / 10" 1, simplified])

subsection \<open>Two iterations: filling, then a drain to empty\<close>

text \<open>
  An iteration on the readings 100 and 500, with no turn samples yet.
\<close>

lemma filling_tick:
  assumes "m_bufferSizeSamples s = [100, 500]" and "m_turnSamples s = []"
  shows "direction s now = Fin (- 1)"
    and "snd (sampleThread_iter s now) = (Fin (- 1), Fin 0)"
    and "m_turnSamples (fst (sampleThread_iter s now)) = []"
    and "m_previousVector (fst (sampleThread_iter s now)) = Fin (- 1)"
    and "m_hasFirstTurndown (fst (sampleThread_iter s now))"
    and "m_previousTurndown (fst (sampleThread_iter s now)) = now"
proof -
  show d: "direction s now = Fin (- 1)"
    using assms by (simp add: direction_def classify_def)
  have p: "pivots (estimate (snd (classify s now)) now) (Fin (- 1)) (detected_at s now) = []"
    using assms
    by (simp add: pivots_def fge_def bufferDelta_def estimate_def snd_classify_fields)
  show "snd (sampleThread_iter s now) = (Fin (- 1), Fin 0)"
    and "m_turnSamples (fst (sampleThread_iter s now)) = []"
    and "m_previousVector (fst (sampleThread_iter s now)) = Fin (- 1)"
    using assms(1) d p by (simp_all add: iter_nonempty Let_def)
  show "m_hasFirstTurndown (fst (sampleThread_iter s now))"
    and "m_previousTurndown (fst (sampleThread_iter s now)) = now"
    using assms(1) by (simp_all add: iter_debounce classify_def)
qed

text \<open>
  An iteration on the readings 200 and 0 that follows a filling iteration by at most 10
  whole seconds.
\<close>

lemma drain_after_filling_tick:
  assumes "m_bufferSizeSamples s = [200, 0]" and "m_turnSamples s = []"
    and "m_previousVector s = Fin (- 1)" and "m_hasFirstTurndown s"
    and "previousTurndownDiff s now \<le> 10" and "0 < m_bwSampleCount s"
  shows "direction s now = Fin 0"
    and "fst (snd (sampleThread_iter s now)) = Fin 0"
    and "m_turnSamples (fst (sampleThread_iter s now)) = [detected_at s now]"
    and "m_turnSamples (fst (sampleThread_iter s now))
           = [hd (m_bwSamples (fst (sampleThread_iter s now)))]"
proof -
  show d: "direction s now = Fin 0"
    using assms by (simp add: direction_def classify_def)
  have p: "pivots (estimate (snd (classify s now)) now) (Fin 0) (detected_at s now)
             = [detected_at s now]"
    using assms
    by (simp add: pivots_def fge_def bufferDelta_def estimate_def snd_classify_fields
        hd_push_front_capped kPivotSamples_def detected_at_classify push_front_capped_def)
  show t: "m_turnSamples (fst (sampleThread_iter s now)) = [detected_at s now]"
    using assms(1) d p by (simp add: iter_nonempty Let_def)
  show "fst (snd (sampleThread_iter s now)) = Fin 0"
    using assms(1) d t by (simp add: iter_vec fmul_zero_magnitude)
  show "m_turnSamples (fst (sampleThread_iter s now))
           = [hd (m_bwSamples (fst (sampleThread_iter s now)))]"
    using assms(6) t by (simp add: iter_fields hd_push_front_capped)
qed

subsection \<open>The accepted drain\<close>

text \<open>
  Claim C1, as the code has it. An iteration that finds buffer samples whose last reading is
  0, and for which no turndown has been recorded yet or more than 10 whole seconds have
  passed since the recorded one, sets the direction to +1. It leaves \<open>m_previousTurndown\<close>
  and \<open>m_hasFirstTurndown\<close> as they were: only the filling branch assigns them.
\<close>

theorem accepted_drain_keeps_debounce_state:
  assumes "m_bufferSizeSamples s \<noteq> []"
    and "last (m_bufferSizeSamples s) = 0"
    and "\<not> m_hasFirstTurndown s \<or> previousTurndownDiff s now > 10"
  shows "direction s now = Fin 1
    \<and> m_previousTurndown (fst (sampleThread_iter s now)) = m_previousTurndown s
    \<and> m_hasFirstTurndown (fst (sampleThread_iter s now)) = m_hasFirstTurndown s"
proof -
  have "drain_accepted s now"
    using assms by (simp add: drain_accepted_def)
  then have "classify s now = (Fin 1, s)"
    by (rule classify_accepted)
  then show ?thesis
    using assms(1) by (simp add: direction_def iter_debounce)
qed

text \<open>
  The fresh object that collected the readings 200 and 0, at 5 seconds.
\<close>

theorem accepted_drain_keeps_debounce_state_witness:
  "m_bufferSizeSamples (run (TCPThroughputAdaptation 0) drain_once) \<noteq> []
   \<and> last (m_bufferSizeSamples (run (TCPThroughputAdaptation 0) drain_once)) = 0
   \<and> \<not> m_hasFirstTurndown (run (TCPThroughputAdaptation 0) drain_once)
   \<and> direction (run (TCPThroughputAdaptation 0) drain_once) 5000000000 = Fin 1
   \<and> m_previousTurndown (fst (sampleThread_iter (run (TCPThroughputAdaptation 0) drain_once) 5000000000)) = 0
   \<and> m_hasFirstTurndown (fst (sampleThread_iter (run (TCPThroughputAdaptation 0) drain_once) 5000000000)) = False"
  using accepted_drain_keeps_debounce_state
    [of "run (TCPThroughputAdaptation 0) drain_once"
        5000000000]
  by (simp add: history_simps)

text \<open>
  Claim C1 as the specification words it asks for the time stamp to become the clock
  reading and the flag to become true. On a fresh object that collected the readings 200
  and 0, the iteration at 5 seconds accepts the drain, and afterwards the time stamp is not
  5 seconds and the flag is still false.
\<close>

theorem accepted_drain_sets_debounce_state_counterexample:
  "m_bufferSizeSamples (run (TCPThroughputAdaptation 0) drain_once) \<noteq> []
   \<and> last (m_bufferSizeSamples (run (TCPThroughputAdaptation 0) drain_once)) = 0
   \<and> \<not> m_hasFirstTurndown (run (TCPThroughputAdaptation 0) drain_once)
   \<and> direction (run (TCPThroughputAdaptation 0) drain_once) 5000000000 = Fin 1
   \<and> m_previousTurndown (fst (sampleThread_iter (run (TCPThroughputAdaptation 0) drain_once) 5000000000)) \<noteq> 5000000000
   \<and> \<not> m_hasFirstTurndown (fst (sampleThread_iter (run (TCPThroughputAdaptation 0) drain_once) 5000000000))"
  by (simp add: history_simps direction_def classify_def)

subsection \<open>A drain that follows an accepted drain\<close>

text \<open>
  Claim C2, as the code has it. When an iteration accepted a drain (direction +1) and the
  next iteration, later on the clock and less than 10 seconds later, finds a last reading
  of 0 that is not above the first reading, the direction of that next iteration is +1
  again: accepting a drain records nothing, so nothing suppresses the repetition. Between
  the two iterations only producers run.
\<close>

theorem repeated_drain_accepted_again:
  assumes first: "m_bufferSizeSamples s \<noteq> []" "direction s now1 = Fin 1"
    and between: "list_all (\<lambda>e. \<not> is_tick e) es"
    and second: "s2 = run (fst (sampleThread_iter s now1)) es"
    and time: "now1 \<le> now2" "now2 - now1 < 10000000000"
    and bufs: "m_bufferSizeSamples s2 \<noteq> []" "last (m_bufferSizeSamples s2) = 0"
      "last (m_bufferSizeSamples s2) \<le> hd (m_bufferSizeSamples s2)"
  shows "direction s2 now2 = Fin 1"
proof -
  have acc: "drain_accepted s now1"
    using first by (simp add: direction_1_iff)
  then have "classify s now1 = (Fin 1, s)"
    by (rule classify_accepted)
  then have same: "m_hasFirstTurndown s2 = m_hasFirstTurndown s"
    "m_previousTurndown s2 = m_previousTurndown s"
    using first(1) between second by (simp_all add: run_producers_debounce iter_debounce)
  from acc have "\<not> m_hasFirstTurndown s \<or> previousTurndownDiff s now1 > 10"
    by (simp add: drain_accepted_def)
  then have "\<not> m_hasFirstTurndown s2 \<or> previousTurndownDiff s2 now2 > 10"
    using same time(1) previousTurndownDiff_mono [of now1 now2 s]
    by (auto simp: previousTurndownDiff_def)
  then have "drain_accepted s2 now2"
    using bufs by (simp add: drain_accepted_def)
  then show ?thesis
    using bufs(1) by (simp add: direction_1_iff)
qed

text \<open>
  Two iterations 5 seconds apart on a fresh object, each on the readings 200 and 0.
\<close>

theorem repeated_drain_accepted_again_witness:
  "m_bufferSizeSamples (run (TCPThroughputAdaptation 0) drain_once) \<noteq> []
   \<and> direction (run (TCPThroughputAdaptation 0) drain_once) 5000000000 = Fin 1
   \<and> (5000000000::int) \<le> 10000000000
   \<and> (10000000000::int) - 5000000000 < 10000000000
   \<and> m_bufferSizeSamples (run (TCPThroughputAdaptation 0) drain_twice) = [200, 0]
   \<and> direction (run (TCPThroughputAdaptation 0) drain_twice) 10000000000 = Fin 1"
  using repeated_drain_accepted_again
    [of "run (TCPThroughputAdaptation 0) drain_once"
        5000000000
        "[AddBufferSizeSample 200, AddBufferSizeSample 0]"
        "run (TCPThroughputAdaptation 0) drain_twice"
        10000000000]
  by (simp add: history_simps direction_def classify_def)

text \<open>
  Claim C2 as the specification words it gives the second iteration the direction 0. In
  the history above every hypothesis of the claim holds and the direction is not 0.
\<close>

theorem repeated_drain_debounced_counterexample:
  "m_bufferSizeSamples (run (TCPThroughputAdaptation 0) drain_once) \<noteq> []
   \<and> direction (run (TCPThroughputAdaptation 0) drain_once) 5000000000 = Fin 1
   \<and> (10000000000::int) - 5000000000 < 10000000000
   \<and> last (m_bufferSizeSamples (run (TCPThroughputAdaptation 0) drain_twice)) = 0
   \<and> last (m_bufferSizeSamples (run (TCPThroughputAdaptation 0) drain_twice))
     \<le> hd (m_bufferSizeSamples (run (TCPThroughputAdaptation 0) drain_twice))
   \<and> direction (run (TCPThroughputAdaptation 0) drain_twice) 10000000000 \<noteq> Fin 0"
  by (simp add: history_simps direction_def classify_def)

subsection \<open>Scenario B followed by scenario C\<close>

text \<open>
  Claim C3, as the code has it. An iteration on the readings 100 and 500, with no turn
  samples yet, has direction -1 and emits the vector -1. That filling iteration records
  the turndown, so when the next iteration follows by at most 10 whole seconds and finds
  the readings 200 and 0, its direction is 0, not +1. The previous vector was negative and
  the new one is not, so the front of the bandwidth window is pushed into the turn samples,
  which are therefore not empty when the magnitude is applied; the emitted vector is 0.
  The sent samples play no role.
\<close>

theorem filling_then_drain_is_debounced:
  assumes "m_bufferSizeSamples s = [100, 500]" and "m_turnSamples s = []"
    and "m_bwSampleCount s = 30"
    and "list_all (\<lambda>e. \<not> is_tick e) es"
    and "s2 = run (fst (sampleThread_iter s now1)) es"
    and "m_bufferSizeSamples s2 = [200, 0]"
    and "(now2 - now1) sdiv 1000000000 \<le> 10"
  shows "direction s now1 = Fin (- 1)
    \<and> fst (snd (sampleThread_iter s now1)) = Fin (- 1)
    \<and> direction s2 now2 = Fin 0
    \<and> m_turnSamples (fst (sampleThread_iter s2 now2))
        = [hd (m_bwSamples (fst (sampleThread_iter s2 now2)))]
    \<and> fst (snd (sampleThread_iter s2 now2)) = Fin 0"
proof -
  note first = filling_tick [OF assms(1,2), of now1]
  have win: "m_turnSamples s2 = []" "m_previousVector s2 = Fin (- 1)" "0 < m_bwSampleCount s2"
    using assms(3,4,5) first(3,4) by (simp_all add: run_producers_window iter_fields)
  have deb: "m_hasFirstTurndown s2" "previousTurndownDiff s2 now2 \<le> 10"
    using assms(4,5,7) first(5,6)
    by (simp_all add: run_producers_debounce previousTurndownDiff_def)
  note second = drain_after_filling_tick [OF assms(6) win(1,2) deb win(3)]
  show ?thesis
    using first(1,2) second(1,2,4) by simp
qed

text \<open>
  A fresh object: 1000 bytes and the readings 100 and 500 before the iteration at 5
  seconds, 1000 bytes and the readings 200 and 0 before the iteration at 10 seconds.
\<close>

theorem filling_then_drain_is_debounced_witness:
  "m_bufferSizeSamples (run (TCPThroughputAdaptation 0) fill_sending) = [100, 500]
   \<and> m_turnSamples (run (TCPThroughputAdaptation 0) fill_sending) = []
   \<and> m_bwSampleCount (run (TCPThroughputAdaptation 0) fill_sending) = 30
   \<and> m_bufferSizeSamples (run (TCPThroughputAdaptation 0) fill_then_drain) = [200, 0]
   \<and> ((10000000000::int) - 5000000000) sdiv 1000000000 \<le> 10
   \<and> direction (run (TCPThroughputAdaptation 0) fill_sending) 5000000000 = Fin (- 1)
   \<and> fst (snd (sampleThread_iter (run (TCPThroughputAdaptation 0) fill_sending)
        5000000000)) = Fin (- 1)
   \<and> direction (run (TCPThroughputAdaptation 0) fill_then_drain) 10000000000 = Fin 0
   \<and> fst (snd (sampleThread_iter (run (TCPThroughputAdaptation 0) fill_then_drain)
        10000000000)) = Fin 0"
  using filling_then_drain_is_debounced
    [of "run (TCPThroughputAdaptation 0) fill_sending"
        "[AddSentBytesSample 1000, AddBufferSizeSample 200, AddBufferSizeSample 0]"
        "run (TCPThroughputAdaptation 0) fill_then_drain"
        5000000000 10000000000]
  by (simp add: history_simps signed_divide_int_def)

text \<open>
  Claim C3 as the specification words it gives the second iteration the direction +1 and
  the vector +1. In the history above the first iteration is as claimed; the second has
  neither that direction nor that vector.
\<close>

theorem first_drain_after_filling_counterexample:
  "direction (run (TCPThroughputAdaptation 0) fill_sending)
      5000000000 = Fin (- 1)
   \<and> fst (snd (sampleThread_iter (run (TCPThroughputAdaptation 0) fill_sending)
      5000000000)) = Fin (- 1)
   \<and> direction (run (TCPThroughputAdaptation 0) fill_then_drain)
      10000000000 \<noteq> Fin 1
   \<and> fst (snd (sampleThread_iter (run (TCPThroughputAdaptation 0) fill_then_drain)
      10000000000)) \<noteq> Fin 1"
proof -
  let ?s = "run (TCPThroughputAdaptation 0) fill_sending"
  let ?s2 = "run (TCPThroughputAdaptation 0) fill_then_drain"
  have s: "m_bufferSizeSamples ?s = [100, 500]" "m_turnSamples ?s = []"
    by (simp_all add: history_simps)
  note first = filling_tick [OF s, of 5000000000]
  have s2: "?s2 = run (fst (sampleThread_iter ?s 5000000000))
      [AddSentBytesSample 1000, AddBufferSizeSample 200, AddBufferSizeSample 0]"
    by (simp add: run_simps)
  have b2: "m_bufferSizeSamples ?s2 = [200, 0]"
    by (simp add: run_simps producer_fields iter_fields)
  have w2: "m_turnSamples ?s2 = []" "m_previousVector ?s2 = Fin (- 1)"
      "0 < m_bwSampleCount ?s2"
    unfolding s2 using first(3,4)
    by (simp_all add: run_producers_window iter_fields run_simps producer_fields_more
        fresh_fields_more)
  have d2: "m_hasFirstTurndown ?s2" "previousTurndownDiff ?s2 10000000000 \<le> 10"
    unfolding s2 using first(5,6)
    by (simp_all add: run_producers_debounce previousTurndownDiff_def signed_divide_int_def)
  note second = drain_after_filling_tick [OF b2 w2(1,2) d2 w2(3)]
  show ?thesis
    using first(1,2) second(1,2) by simp
qed

subsection \<open>An iteration without buffer samples\<close>

text \<open>
  Claim C4, as the code has it. An iteration that finds no buffer samples leaves the
  previous vector, the turn samples and the turndown record untouched, and its locals
  \<open>vec\<close> and \<open>turnAvg\<close> keep their initial value 0: a registered callback receives
  \<open>(0, 0)\<close>, whatever the previous iteration delivered.
\<close>

theorem empty_buffer_tick_emits_zero:
  assumes "m_bufferSizeSamples s = []"
  shows "snd (sampleThread_iter s now) = (Fin 0, Fin 0)
    \<and> callback_args s (sampleThread_iter s now)
        = (if m_callback s then Some (Fin 0, Fin 0) else None)
    \<and> m_previousVector (fst (sampleThread_iter s now)) = m_previousVector s
    \<and> m_turnSamples (fst (sampleThread_iter s now)) = m_turnSamples s
    \<and> m_hasFirstTurndown (fst (sampleThread_iter s now)) = m_hasFirstTurndown s
    \<and> m_previousTurndown (fst (sampleThread_iter s now)) = m_previousTurndown s"
  using assms by (simp add: iter_empty callback_args_def estimate_def)

text \<open>
  A fresh object with a callback, after an iteration on the readings 100 and 500.
\<close>

theorem empty_buffer_tick_emits_zero_witness:
  "m_bufferSizeSamples (run (TCPThroughputAdaptation 0) fill_with_callback_then_tick) = []
   \<and> callback_args (run (TCPThroughputAdaptation 0) fill_with_callback_then_tick)
     (sampleThread_iter (run (TCPThroughputAdaptation 0) fill_with_callback_then_tick) 10000000000) = Some (Fin 0, Fin 0)"
  using empty_buffer_tick_emits_zero
    [of "run (TCPThroughputAdaptation 0) fill_with_callback_then_tick" 10000000000]
  by (simp add: run_simps iter_fields producer_fields_more)

text \<open>
  Claim C4 as the specification words it has the callback receive the same pair as on
  the previous iteration. In the history above the first iteration delivers \<open>(-1, 0)\<close>
  and the second, which finds no buffer samples, delivers another pair.
\<close>

theorem empty_buffer_tick_repeats_previous_counterexample:
  "m_bufferSizeSamples (run (TCPThroughputAdaptation 0) fill_with_callback_then_tick) = []
   \<and> callback_args (run (TCPThroughputAdaptation 0) fill_with_callback)
     (sampleThread_iter (run (TCPThroughputAdaptation 0) fill_with_callback)
      5000000000) = Some (Fin (- 1), Fin 0)
   \<and> callback_args (run (TCPThroughputAdaptation 0) fill_with_callback_then_tick)
     (sampleThread_iter (run (TCPThroughputAdaptation 0) fill_with_callback_then_tick) 10000000000)
     \<noteq> callback_args (run (TCPThroughputAdaptation 0) fill_with_callback)
     (sampleThread_iter (run (TCPThroughputAdaptation 0) fill_with_callback)
      5000000000)"
proof -
  let ?s = "run (TCPThroughputAdaptation 0) fill_with_callback"
  let ?s1 = "run (TCPThroughputAdaptation 0) fill_with_callback_then_tick"
  have s: "m_bufferSizeSamples ?s = [100, 500]" "m_turnSamples ?s = []" "m_callback ?s"
    by (simp_all add: history_simps)
  have first: "callback_args ?s (sampleThread_iter ?s 5000000000) = Some (Fin (- 1), Fin 0)"
    using filling_tick(2) [OF s(1,2), of 5000000000] s(3) by (simp add: callback_args_def)
  have s1: "m_bufferSizeSamples ?s1 = []" "m_callback ?s1"
    by (simp_all add: run_simps iter_fields producer_fields_more)
  have "callback_args ?s1 (sampleThread_iter ?s1 10000000000) = Some (Fin 0, Fin 0)"
    using s1 by (simp add: callback_args_def iter_empty)
  with first s1(1) show ?thesis by simp
qed

subsection \<open>Cold start\<close>

text \<open>
  Claim C6. When an iteration finds buffer samples and the turn samples are empty after
  the pushes of lines 112 to 124, that is when line 126 tests them, the emitted vector is
  the direction itself.
\<close>

theorem cold_start_vector_is_direction:
  assumes "m_bufferSizeSamples s \<noteq> []"
    and "m_turnSamples (fst (sampleThread_iter s now)) = []"
  shows "fst (snd (sampleThread_iter s now)) = direction s now"
  using assms by (simp add: iter_vec)

text \<open>
  A fresh object that collected the readings 100 and 500, at 5 seconds.
\<close>

theorem cold_start_vector_is_direction_witness:
  "m_bufferSizeSamples (run (TCPThroughputAdaptation 0) fill_once) \<noteq> []
   \<and> m_turnSamples (fst (sampleThread_iter (run (TCPThroughputAdaptation 0) fill_once) 5000000000)) = []
   \<and> fst (snd (sampleThread_iter (run (TCPThroughputAdaptation 0) fill_once) 5000000000))
     = direction (run (TCPThroughputAdaptation 0) fill_once) 5000000000"
proof -
  let ?s = "run (TCPThroughputAdaptation 0) fill_once"
  have s: "m_bufferSizeSamples ?s = [100, 500]" "m_turnSamples ?s = []"
    by (simp_all add: history_simps)
  have ne: "m_bufferSizeSamples ?s \<noteq> []"
    using s(1) by simp
  note e = filling_tick(3) [OF s, of 5000000000]
  show ?thesis
    using ne e cold_start_vector_is_direction [OF ne e] by simp
qed

subsection \<open>Who writes the turndown record\<close>

text \<open>
  Claim C10. An iteration changes \<open>m_hasFirstTurndown\<close> or \<open>m_previousTurndown\<close> only
  when it sees the buffer grow and does not accept a drain. Hence in a history from the
  constructor in which no iteration saw the buffer grow, an iteration that finds a last
  reading of 0 has direction +1, at any clock reading.
\<close>

theorem debounce_state_only_set_when_filling:
  "(m_hasFirstTurndown (fst (sampleThread_iter s now)) \<noteq> m_hasFirstTurndown s
      \<or> m_previousTurndown (fst (sampleThread_iter s now)) \<noteq> m_previousTurndown s
    \<longrightarrow> observed_growth s \<and> \<not> drain_accepted s now)
   \<and> (no_growth_observed (TCPThroughputAdaptation t0) es
      \<and> m_bufferSizeSamples (run (TCPThroughputAdaptation t0) es) \<noteq> []
      \<and> last (m_bufferSizeSamples (run (TCPThroughputAdaptation t0) es)) = 0
    \<longrightarrow> direction (run (TCPThroughputAdaptation t0) es) now' = Fin 1)"
proof (intro conjI impI)
  assume chg: "m_hasFirstTurndown (fst (sampleThread_iter s now)) \<noteq> m_hasFirstTurndown s
      \<or> m_previousTurndown (fst (sampleThread_iter s now)) \<noteq> m_previousTurndown s"
  then have ne: "m_bufferSizeSamples s \<noteq> []"
    by (auto simp: iter_debounce split: if_splits)
  with chg have "m_hasFirstTurndown (snd (classify s now)) \<noteq> m_hasFirstTurndown s
     \<or> m_previousTurndown (snd (classify s now)) \<noteq> m_previousTurndown s"
    by (simp add: iter_debounce)
  from classify_changes_debounce [OF this] ne
  show "observed_growth s" and "\<not> drain_accepted s now"
    by (simp_all add: observed_growth_def drain_accepted_def)
next
  assume a: "no_growth_observed (TCPThroughputAdaptation t0) es
      \<and> m_bufferSizeSamples (run (TCPThroughputAdaptation t0) es) \<noteq> []
      \<and> last (m_bufferSizeSamples (run (TCPThroughputAdaptation t0) es)) = 0"
  then have "\<not> m_hasFirstTurndown (run (TCPThroughputAdaptation t0) es)"
    by (simp add: no_growth_keeps_no_turndown fresh_fields)
  with a have "drain_accepted (run (TCPThroughputAdaptation t0) es) now'"
    by (simp add: drain_accepted_def)
  with a show "direction (run (TCPThroughputAdaptation t0) es) now' = Fin 1"
    by (simp add: direction_1_iff)
qed

text \<open>
  A filling iteration that sets the flag; and two drains to empty one nanosecond apart.
\<close>

theorem debounce_state_only_set_when_filling_witness:
  "m_hasFirstTurndown (fst (sampleThread_iter (run (TCPThroughputAdaptation 0) fill_once) 5000000000))
     \<noteq> m_hasFirstTurndown (run (TCPThroughputAdaptation 0) fill_once)
   \<and> observed_growth (run (TCPThroughputAdaptation 0) fill_once)
   \<and> \<not> drain_accepted (run (TCPThroughputAdaptation 0) fill_once) 5000000000
   \<and> no_growth_observed (TCPThroughputAdaptation 0) drain_twice
   \<and> last (m_bufferSizeSamples (run (TCPThroughputAdaptation 0) drain_twice)) = 0
   \<and> direction (run (TCPThroughputAdaptation 0) drain_twice) 5000000001 = Fin 1"
  using debounce_state_only_set_when_filling
    [of "run (TCPThroughputAdaptation 0) fill_once"
        5000000000 0
        drain_twice
        5000000001]
  by (simp add: history_simps classify_def observed_growth_def drain_accepted_def
      direction_def)

subsection \<open>The emitted vector\<close>

text \<open>
  Claim C5. The vector of every iteration is a number between -1 and 1. The direction is
  -1, 0 or +1. When the iteration finds buffer samples and the turn samples are not empty
  at line 126, the vector is the direction times a magnitude between 0.1 and 1, and for
  a number \<open>a\<close> that magnitude is \<open>clamp(atan(3 a\<^sup>2) / (\<pi> / 2), 0.1, 1)\<close>. (When \<open>a\<close> is an
  infinity or a NaN the magnitude is 1.)
\<close>

theorem vector_in_unit_interval:
  "(\<exists>r. fst (snd (sampleThread_iter s now)) = Fin r \<and> - 1 \<le> r \<and> r \<le> 1)
   \<and> direction s now \<in> {Fin (- 1), Fin 0, Fin 1}
   \<and> (m_bufferSizeSamples s \<noteq> [] \<and> m_turnSamples (fst (sampleThread_iter s now)) \<noteq> [] \<longrightarrow>
       (\<exists>m. fst (snd (sampleThread_iter s now)) = fmul (direction s now) (Fin m)
          \<and> magnitude (a_at s now) = Fin m \<and> 1 / 10 \<le> m \<and> m \<le> 1
          \<and> (\<forall>x. a_at s now = Fin x \<longrightarrow>
                m = spec_clamp (arctan (3 * x\<^sup>2) / (pi / 2)) (1 / 10) 1)))"
proof (intro conjI impI)
  obtain m where m: "magnitude (a_at s now) = Fin m" "1 / 10 \<le> m" "m \<le> 1"
    using magnitude_range by blast
  obtain d where d: "direction s now = Fin d" "d = - 1 \<or> d = 0 \<or> d = 1"
    using direction_cases [of s now] by auto
  show "direction s now \<in> {Fin (- 1), Fin 0, Fin 1}"
    using direction_cases [of s now] by auto
  show "\<exists>r. fst (snd (sampleThread_iter s now)) = Fin r \<and> - 1 \<le> r \<and> r \<le> 1"
  proof (cases "m_bufferSizeSamples s = []")
    case True
    then show ?thesis by (simp add: iter_empty)
  next
    case False
    show ?thesis
    proof (cases "m_turnSamples (fst (sampleThread_iter s now)) = []")
      case True
      with False d show ?thesis
        by (auto simp: iter_vec)
    next
      case False
      with \<open>m_bufferSizeSamples s \<noteq> []\<close>
      have "fst (snd (sampleThread_iter s now)) = Fin (d * m)"
        by (simp add: iter_vec d m)
      moreover have "- 1 \<le> d * m \<and> d * m \<le> 1"
        using d(2) m(2,3) by auto
      ultimately show ?thesis by blast
    qed
  qed
  assume "m_bufferSizeSamples s \<noteq> [] \<and> m_turnSamples (fst (sampleThread_iter s now)) \<noteq> []"
  then have "fst (snd (sampleThread_iter s now)) = fmul (direction s now) (Fin m)"
    by (simp add: iter_vec m)
  moreover have "\<forall>x. a_at s now = Fin x \<longrightarrow>
      m = spec_clamp (arctan (3 * x\<^sup>2) / (pi / 2)) (1 / 10) 1"
    using m(1) by (auto simp: magnitude_clamp)
  ultimately show "\<exists>m. fst (snd (sampleThread_iter s now)) = fmul (direction s now) (Fin m)
          \<and> magnitude (a_at s now) = Fin m \<and> 1 / 10 \<le> m \<and> m \<le> 1
          \<and> (\<forall>x. a_at s now = Fin x \<longrightarrow>
                m = spec_clamp (arctan (3 * x\<^sup>2) / (pi / 2)) (1 / 10) 1)"
    using m by blast
qed

text \<open>
  A fresh object whose first iteration runs 1 millisecond after the start; then 1000 bytes
  and the readings 500 and 200 before the iteration 5 seconds later. The throughput is 200,
  it is pushed as the only turn sample, and the direction is 0.
\<close>

theorem vector_in_unit_interval_witness:
  "m_bufferSizeSamples (run (TCPThroughputAdaptation 0) shrink_sending) \<noteq> []
   \<and> m_turnSamples (fst (sampleThread_iter (run (TCPThroughputAdaptation 0) shrink_sending) 5001000000)) \<noteq> []
   \<and> a_at (run (TCPThroughputAdaptation 0) shrink_sending) 5001000000
     = Fin ((200 - 200 * (1 / ((1 - (3/4) ^ 30) / (1 - 3/4)))) / 200)
   \<and> magnitude (a_at (run (TCPThroughputAdaptation 0) shrink_sending) 5001000000)
     = Fin (spec_clamp (arctan (3 * ((200 - 200 * (1 / ((1 - (3/4) ^ 30) / (1 - 3/4)))) / 200)\<^sup>2)
                   / (pi / 2)) (1 / 10) 1)
   \<and> fst (snd (sampleThread_iter (run (TCPThroughputAdaptation 0) shrink_sending) 5001000000)) = Fin 0"
proof -
  let ?s = "run (TCPThroughputAdaptation 0) shrink_sending"
  let ?x = "(200 - 200 * (1 / ((1 - (3/4) ^ 30) / (1 - 3/4)))) / 200 :: real"
  have b: "m_bufferSizeSamples ?s = [500, 200]"
    by (simp add: run_simps producer_fields iter_fields)
  then have ne: "m_bufferSizeSamples ?s \<noteq> []"
    by simp
  have d: "direction ?s 5001000000 = Fin 0"
    using b by (simp add: direction_def classify_def)
  have det: "detected_at ?s 5001000000 = Fin 200"
    by (simp add: detected_at_def run_simps producer_fields_more iter_fields totalSent_def
        timeDelta_def detectedBytesPerSec_def signed_divide_int_def)
  have pv: "m_previousVector ?s = Fin 0" "m_turnSamples ?s = []"
    by (simp_all add: run_simps producer_fields_more fresh_fields fresh_fields_more
        iter_empty estimate_def)
  have ts: "m_turnSamples (fst (sampleThread_iter ?s 5001000000)) = [Fin 200]"
    unfolding turnSamples_iter [OF ne] d det
    using b pv
    by (simp add: pivots_def bufferDelta_def estimate_def snd_classify_fields
        push_front_capped_def kPivotSamples_def)
  have ta: "snd (snd (sampleThread_iter ?s 5001000000)) = Fin 200"
    using ts by (simp add: turnAvg_iter [OF ne] turnAvg_of_def)
  have bw: "m_bwSamples ?s = [Fin 0]" "m_bwSampleCount ?s = 30"
      "m_bwWeights ?s = bwWeights 30"
    by (simp_all add: run_simps producer_fields_more iter_fields fresh_fields_more
        detected_at_def totalSent_def timeDelta_def detectedBytesPerSec_def
        push_front_capped_def signed_divide_int_def)
  then have "m_bwSamples (estimate ?s 5001000000) = [Fin 200, Fin 0]"
      and "m_bwWeights (estimate ?s 5001000000) = bwWeights 30"
    unfolding estimate_def by (simp_all add: det push_front_capped_def)
  then have "avg_at ?s 5001000000 = Fin (200 * (1 / ((1 - (3/4) ^ 30) / (1 - 3/4))))"
    by (simp add: avg_at_def weighted_avg_def bwWeights_nth)
  then have a: "a_at ?s 5001000000 = Fin ?x"
    by (simp add: a_at_def synth_a_def det ta fsub_def)
  from vector_in_unit_interval [of ?s 5001000000] ne ts
  obtain m where m: "fst (snd (sampleThread_iter ?s 5001000000))
        = fmul (direction ?s 5001000000) (Fin m)"
      "magnitude (a_at ?s 5001000000) = Fin m"
      "\<forall>x. a_at ?s 5001000000 = Fin x \<longrightarrow>
          m = spec_clamp (arctan (3 * x\<^sup>2) / (pi / 2)) (1 / 10) 1"
    by auto
  from m(3) a have "m = spec_clamp (arctan (3 * ?x\<^sup>2) / (pi / 2)) (1 / 10) 1"
    by blast
  with m(1,2) d ne ts a show ?thesis
    by simp
qed

subsection \<open>Capacities of the windows\<close>

lemma window_inv_step: "window_inv s \<Longrightarrow> window_inv (step s e)"
proof (cases e)
  case (Tick now)
  assume "window_inv s"
  then show ?thesis
    using Tick
    by (simp add: window_inv_def iter_fields length_push_front_capped length_turnSamples_iter)
qed (simp_all add: window_inv_def producer_fields_more)

lemma window_inv_run: "window_inv s \<Longrightarrow> window_inv (run s es)"
  by (induction es arbitrary: s) (simp_all add: run_simps window_inv_step)

text \<open>
  Claim C7. After any history from the constructor the bandwidth window holds at most 30
  samples and the turn samples are at most 5, also when one iteration pushes twice.
\<close>

theorem windows_never_exceed_capacity:
  "length (m_bwSamples (run (TCPThroughputAdaptation t0) es)) \<le> 30
   \<and> length (m_turnSamples (run (TCPThroughputAdaptation t0) es)) \<le> 5"
proof -
  have "window_inv (TCPThroughputAdaptation t0)"
    by (simp add: window_inv_def fresh_fields_more)
  then have "window_inv (run (TCPThroughputAdaptation t0) es)"
    by (rule window_inv_run)
  then show ?thesis
    by (simp add: window_inv_def)
qed

subsection \<open>The weight table\<close>

text \<open>
  Claim C8. The constructor's 30 weights are \<open>0.75\<^sup>i / ((1 - 0.75\<^sup>3\<^sup>0) / (1 - 0.75))\<close>, they
  sum to 1 in exact arithmetic, and every later weight is below the weight at index 0.
\<close>

theorem weights_normalized_geometric:
  "m_bwWeights (TCPThroughputAdaptation t0)
     = map (\<lambda>i. Fin ((3/4) ^ i / ((1 - (3/4) ^ 30) / (1 - 3/4)))) [0..<30]
   \<and> foldl fadd (Fin 0) (m_bwWeights (TCPThroughputAdaptation t0)) = Fin 1
   \<and> (\<forall>i. 0 < i \<and> i < 30 \<longrightarrow>
        flt (m_bwWeights (TCPThroughputAdaptation t0) ! i)
            (m_bwWeights (TCPThroughputAdaptation t0) ! 0))"
proof (intro conjI allI impI)
  have w: "m_bwWeights (TCPThroughputAdaptation t0)
     = map (\<lambda>i. Fin ((3/4) ^ i / ((1 - (3/4) ^ 30) / (1 - 3/4)))) [0..<30]"
    using bwWeights_eq [of 30] by (simp add: fresh_fields_more)
  show "m_bwWeights (TCPThroughputAdaptation t0)
     = map (\<lambda>i. Fin ((3/4) ^ i / ((1 - (3/4) ^ 30) / (1 - 3/4)))) [0..<30]"
    by (fact w)
  show "foldl fadd (Fin 0) (m_bwWeights (TCPThroughputAdaptation t0)) = Fin 1"
    unfolding w using sum_weights [of 30] by (simp only: foldl_fadd_Fin) simp
  fix i :: nat
  assume i: "0 < i \<and> i < 30"
  then have "(3/4 :: real) ^ i < 1"
    by (simp add: power_less_one_iff)
  then have "(3/4 :: real) ^ i / ((1 - (3/4) ^ 30) / (1 - 3/4))
      < (3/4) ^ 0 / ((1 - (3/4) ^ 30) / (1 - 3/4))"
    using weight_norm_pos [of 30] by (simp add: divide_strict_right_mono)
  then show "flt (m_bwWeights (TCPThroughputAdaptation t0) ! i)
            (m_bwWeights (TCPThroughputAdaptation t0) ! 0)"
    unfolding w using i by (simp del: upt_rec_numeral power_0)
qed

text \<open>
  The weight at index 1 against the weight at index 0.
\<close>

theorem weights_normalized_geometric_witness:
  "(0::nat) < 1 \<and> (1::nat) < 30
   \<and> flt (m_bwWeights (TCPThroughputAdaptation 0) ! 1)
         (m_bwWeights (TCPThroughputAdaptation 0) ! 0)"
  using weights_normalized_geometric [of 0, THEN conjunct2, THEN conjunct2, rule_format, of 1]
  by simp

subsection \<open>A zero pivot average\<close>

text \<open>
  Claim C9. A history that reaches line 134 with \<open>turnAvg\<close> equal to 0. The first
  iteration runs 1 millisecond after the start and nothing was sent, so every throughput
  is 0. The readings 500 and 200 shrink without reaching 0, so the second iteration pushes
  its throughput 0 as the only turn sample. The division is \<open>0 / 0\<close> and \<open>a\<close> is a NaN.
\<close>

theorem zero_pivot_average_divides_by_zero:
  "divides_by_zero (run (TCPThroughputAdaptation 0) shrink_idle) 5001000000
   \<and> a_at (run (TCPThroughputAdaptation 0) shrink_idle) 5001000000 = NaN"
proof -
  let ?s = "run (TCPThroughputAdaptation 0) shrink_idle"
  have b: "m_bufferSizeSamples ?s = [500, 200]"
    by (simp add: run_simps producer_fields iter_fields)
  then have ne: "m_bufferSizeSamples ?s \<noteq> []"
    by simp
  have d: "direction ?s 5001000000 = Fin 0"
    using b by (simp add: direction_def classify_def)
  have det: "detected_at ?s 5001000000 = Fin 0"
    by (simp add: detected_at_def run_simps producer_fields_more iter_fields totalSent_def
        timeDelta_def detectedBytesPerSec_def signed_divide_int_def)
  have pv: "m_previousVector ?s = Fin 0" "m_turnSamples ?s = []"
    by (simp_all add: run_simps producer_fields_more fresh_fields fresh_fields_more
        iter_empty estimate_def)
  have ts: "m_turnSamples (fst (sampleThread_iter ?s 5001000000)) = [Fin 0]"
    unfolding turnSamples_iter [OF ne] d det
    using b pv
    by (simp add: pivots_def bufferDelta_def estimate_def snd_classify_fields
        push_front_capped_def kPivotSamples_def)
  have ta: "snd (snd (sampleThread_iter ?s 5001000000)) = Fin 0"
    using ts by (simp add: turnAvg_iter [OF ne] turnAvg_of_def)
  have bw: "m_bwSamples ?s = [Fin 0]" "m_bwSampleCount ?s = 30"
      "m_bwWeights ?s = bwWeights 30"
    by (simp_all add: run_simps producer_fields_more iter_fields fresh_fields_more
        detected_at_def totalSent_def timeDelta_def detectedBytesPerSec_def
        push_front_capped_def signed_divide_int_def)
  then have "m_bwSamples (estimate ?s 5001000000) = [Fin 0, Fin 0]"
      and "m_bwWeights (estimate ?s 5001000000) = bwWeights 30"
    unfolding estimate_def by (simp_all add: det push_front_capped_def)
  then have "avg_at ?s 5001000000 = Fin 0"
    by (simp add: avg_at_def weighted_avg_def bwWeights_nth)
  then have "a_at ?s 5001000000 = NaN"
    by (simp add: a_at_def synth_a_def det ta fsub_def)
  then show ?thesis
    using ne ts ta by (simp add: divides_by_zero_def)
qed

end
